theory Spec2Isabelle
  imports Main
begin

section \<open>The WebSocket client of the Go SDK\<close>

text \<open>
  A shallow embedding of the persistent-connection client (\<^verbatim>\<open>WebSocketClient\<close>, its
  \<^verbatim>\<open>Connect\<close>, \<^verbatim>\<open>Disconnect\<close>, \<^verbatim>\<open>Reconnect\<close>, \<^verbatim>\<open>readLoop\<close>, \<^verbatim>\<open>handleDisconnect\<close>,
  \<^verbatim>\<open>Subscribe\<close>, \<^verbatim>\<open>Unsubscribe\<close>, \<^verbatim>\<open>resubscribe\<close>) and of the dispatcher
  (\<^verbatim>\<open>MessageHandler\<close>, \<^verbatim>\<open>NewWSClient\<close>).

  Conventions of the embedding:
  \<^item> every method takes the client and returns the updated client (explicit state passing);
  \<^item> what a method does to the outside world is returned as a list of events, in the order
    the code performs them: dials, sleeps, goroutines started, and every invocation of a
    callback or of a registered handler;
  \<^item> callbacks and handlers are user code: the model keeps whether a callback is set and
    records each invocation with its argument; a callback is taken to return normally and
    not to call back into the client;
  \<^item> a byte slice produced by \<^verbatim>\<open>json.Marshal\<close> is kept as the value that was encoded
    (type \<open>frame\<close>); \<^verbatim>\<open>json.Unmarshal\<close> is a parameter (record \<open>codec\<close>), \<open>None\<close> being a
    decode error;
  \<^item> a buffered channel is the list of its pending elements, oldest first, and a
    non-blocking send succeeds exactly when the list is shorter than the capacity;
  \<^item> a method that can panic returns the fault, if any, with the client and the events as
    they are when the panic is raised (type \<open>fault\<close>).
\<close>

subsection \<open>Data\<close>

type_synonym bytes = string

text \<open>\<^verbatim>\<open>time.Duration\<close>: nanoseconds.\<close>

type_synonym duration = int

definition Second :: duration where
  "Second = 1000000000"

record WebSocketConfig =
  URL :: string
  Token :: string
  HeartbeatInterval :: duration
  ReconnectDelay :: duration
  MaxReconnectAttempts :: int

record WSMessage =
  Type :: string
  Event :: string
  Payload :: bytes
  Seq :: int

text \<open>
  The outbound queue holds JSON encodings; \<open>JSON_WSSubscribeRequest t e\<close> is the encoding of
  \<^verbatim>\<open>WSSubscribeRequest{Type: t, Event: e}\<close>, \<open>JSON_WSMessage m\<close> that of a \<^verbatim>\<open>WSMessage\<close>.
\<close>

datatype frame = JSON_WSSubscribeRequest string string | JSON_WSMessage WSMessage

text \<open>
  Errors. The source builds them with \<^verbatim>\<open>fmt.Errorf\<close>; each constructor stands for one
  message, a wrapped error (\<^verbatim>\<open>%w\<close>) being the constructor's argument.
\<close>

datatype error =
    TransportError string         \<comment> \<open>an error of the dialer or of the socket\<close>
  | CloseError int                \<comment> \<open>\<^verbatim>\<open>*websocket.CloseError\<close> with its close code\<close>
  | JSONError                     \<comment> \<open>an error of \<^verbatim>\<open>json.Unmarshal\<close>\<close>
  | ConnectFailed error           \<comment> \<open>connecting failed\<close>
  | MaxReconnectReached int       \<comment> \<open>the maximum number of reconnect attempts is reached\<close>
  | ReadFailed error              \<comment> \<open>reading a message failed\<close>
  | ParseMessageFailed error      \<comment> \<open>parsing a message failed\<close>
  | SendChannelFull               \<comment> \<open>the send channel is full\<close>
  | ConnectionLost                \<comment> \<open>the connection is lost\<close>
  | ParseUserMessageFailed error
  | ParseCardCallbackFailed error
  | ParseApprovalChangeFailed error

datatype fault =
    CloseOfClosedChannel          \<comment> \<open>\<^verbatim>\<open>close\<close> of a channel that is closed already\<close>
  | NilFunctionCall               \<comment> \<open>call of a nil function value\<close>

record dial_request =
  dial_url :: string
  HandshakeTimeout :: duration
  dial_header :: "(string \<times> string) list"

datatype dial_outcome = DialFails error | DialSucceeds nat

datatype goroutine = Go_readLoop | Go_writeLoop | Go_heartbeatLoop | Go_Reconnect

text \<open>An opaque function value (a registered handler), named by a number.\<close>

type_synonym func = nat

record UserMessage =
  MessageID :: string
  UserID :: string
  UserName :: string
  Content :: string
  MessageType :: string
  ChannelID :: string
  GroupID :: string
  Timestamp :: int
  Raw :: bytes

record CardCallback =
  CallbackID :: string
  cb_UserID :: string
  CardID :: string
  Action :: string
  Data :: bytes
  cb_Timestamp :: int
  cb_Raw :: bytes

record ApprovalChange =
  ApprovalID :: string
  Status :: string
  ApplicantID :: string
  ApplicantName :: string
  ApproverID :: string
  ApproverName :: string
  Comment :: string
  ac_Timestamp :: int
  ac_Raw :: bytes

datatype event =
    Dial dial_request
  | Sleep duration
  | Go goroutine
  | CtxCancel
  | ConnClose nat
  | OnConnectCalled
  | OnDisconnectCalled error
  | OnMessageCalled WSMessage
  | OnErrorCalled error
  | UserMessageHandlerCalled func UserMessage
  | CardCallbackHandlerCalled func CardCallback
  | ApprovalChangeHandlerCalled func ApprovalChange
  | SystemHandlerCalled func string bytes

text \<open>
  The value of the field \<^verbatim>\<open>OnMessage\<close>: a function of the user, or the closure that
  \<^verbatim>\<open>NewWSClient\<close> installs, which hands the message to the \<^verbatim>\<open>MessageHandler\<close> it captured.
\<close>

datatype on_message = UserOnMessage | HandlerOnMessage

text \<open>
  The client. \<open>conn\<close> is \<open>None\<close> for a nil connection. \<open>ctx_done\<close> is the state of the
  context made by \<^verbatim>\<open>NewWebSocketClient\<close> (\<^verbatim>\<open>cancel\<close> sets it; \<^verbatim>\<open>cancel\<close> itself, the
  channels, the map and the configuration are never nil in a client made by
  \<^verbatim>\<open>NewWebSocketClient\<close>). \<open>OnConnect\<close>, \<open>OnDisconnect\<close> and \<open>OnError\<close> say whether the
  callback is set. \<open>closeChan_closed\<close> is the state of \<^verbatim>\<open>closeChan\<close>, on which nothing is
  ever sent.
\<close>

record WebSocketClient =
  config :: WebSocketConfig
  conn :: "nat option"
  isConnected :: bool
  isReconnecting :: bool
  ctx_done :: bool
  OnConnect :: bool
  OnDisconnect :: bool
  OnMessage :: "on_message option"
  OnError :: bool
  subscriptions :: "string \<rightharpoonup> bool"
  readChan :: "WSMessage list"
  writeChan :: "frame list"
  closeChan_closed :: bool

definition readChan_cap :: nat where
  "readChan_cap = 100"

definition writeChan_cap :: nat where
  "writeChan_cap = 100"

definition NewWebSocketClient :: "WebSocketConfig \<Rightarrow> WebSocketClient" where
  "NewWebSocketClient cfg =
     (let cfg1 = (if HeartbeatInterval cfg = 0 then cfg\<lparr>HeartbeatInterval := 30 * Second\<rparr> else cfg);
          cfg2 = (if ReconnectDelay cfg1 = 0 then cfg1\<lparr>ReconnectDelay := 5 * Second\<rparr> else cfg1)
      in \<lparr>config = cfg2, conn = None, isConnected = False, isReconnecting = False,
          ctx_done = False, OnConnect = False, OnDisconnect = False, OnMessage = None,
          OnError = False, subscriptions = Map.empty, readChan = [], writeChan = [],
          closeChan_closed = False\<rparr>)"

definition IsConnected :: "WebSocketClient \<Rightarrow> bool" where
  "IsConnected c = isConnected c"

subsection \<open>Subscriptions\<close>

text \<open>\<^verbatim>\<open>c.subscriptions[event]\<close>: the zero value \<^verbatim>\<open>false\<close> for a missing key.\<close>

definition subscribed :: "WebSocketClient \<Rightarrow> string \<Rightarrow> bool" where
  "subscribed c event = (case subscriptions c event of None \<Rightarrow> False | Some b \<Rightarrow> b)"

text \<open>
  The non-blocking send \<^verbatim>\<open>select { case c.writeChan <- data: ... default: ... }\<close>:
  \<open>None\<close> is the default branch.
\<close>

definition try_send :: "WebSocketClient \<Rightarrow> frame \<Rightarrow> WebSocketClient option" where
  "try_send c data =
     (if length (writeChan c) < writeChan_cap
      then Some (c\<lparr>writeChan := writeChan c @ [data]\<rparr>) else None)"

definition Subscribe :: "WebSocketClient \<Rightarrow> string \<Rightarrow> error option \<times> WebSocketClient" where
  "Subscribe c event =
     (if subscribed c event then (None, c)
      else case try_send c (JSON_WSSubscribeRequest ''subscribe'' event) of
             Some c' \<Rightarrow> (None, c'\<lparr>subscriptions := (subscriptions c')(event \<mapsto> True)\<rparr>)
           | None \<Rightarrow> (Some SendChannelFull, c))"

definition Unsubscribe :: "WebSocketClient \<Rightarrow> string \<Rightarrow> error option \<times> WebSocketClient" where
  "Unsubscribe c event =
     (if \<not> subscribed c event then (None, c)
      else case try_send c (JSON_WSSubscribeRequest ''unsubscribe'' event) of
             Some c' \<Rightarrow> (None, c'\<lparr>subscriptions := (subscriptions c')(event := None)\<rparr>)
           | None \<Rightarrow> (Some SendChannelFull, c))"

text \<open>
  \<^verbatim>\<open>resubscribe\<close> ranges over the map, in an order Go leaves open: \<open>keys\<close> is the slice
  \<^verbatim>\<open>events\<close> that the first loop builds, every key of the map once. A frame that finds the
  queue full is dropped (the empty default branch).
\<close>

definition resubscribe_send :: "string \<Rightarrow> WebSocketClient \<Rightarrow> WebSocketClient" where
  "resubscribe_send event c =
     (case try_send c (JSON_WSSubscribeRequest ''subscribe'' event) of
        Some c' \<Rightarrow> c' | None \<Rightarrow> c)"

definition resubscribe :: "string list \<Rightarrow> WebSocketClient \<Rightarrow> WebSocketClient" where
  "resubscribe keys c = fold resubscribe_send keys c"

text \<open>What \<^verbatim>\<open>range\<close> may yield for a map: each key once.\<close>

definition range_of :: "string list \<Rightarrow> (string \<rightharpoonup> bool) \<Rightarrow> bool" where
  "range_of keys m = (distinct keys \<and> set keys = dom m)"

subsection \<open>Connect and Disconnect\<close>

text \<open>
  What \<^verbatim>\<open>Connect\<close> hands to \<^verbatim>\<open>dialer.Dial\<close>: the URL made by \<^verbatim>\<open>fmt.Sprintf\<close> from the format
  \<^verbatim>\<open>%s?token=%s\<close> and the arguments \<^verbatim>\<open>c.config.Token, c.config.Token\<close>, the handshake timeout
  of the dialer, and the header.
\<close>

definition handshake_request :: "WebSocketConfig \<Rightarrow> dial_request" where
  "handshake_request cfg =
     (let url = Token cfg @ ''?token='' @ Token cfg
      in \<lparr>dial_url = url, HandshakeTimeout = 10 * Second,
          dial_header = [(''Authorization'', ''Bearer '' @ Token cfg)]\<rparr>)"

text \<open>
  \<^verbatim>\<open>Connect\<close>. \<open>outcome\<close> is what \<^verbatim>\<open>dialer.Dial\<close> returns if it is called, \<open>keys\<close> the order
  in which \<^verbatim>\<open>resubscribe\<close> ranges over the map. The result is the returned error, the client
  and the events.
\<close>

definition Connect ::
  "dial_outcome \<Rightarrow> string list \<Rightarrow> WebSocketClient \<Rightarrow> error option \<times> WebSocketClient \<times> event list" where
  "Connect outcome keys c =
     (if isConnected c then (None, c, [])
      else
        let req = handshake_request (config c)
        in case outcome of
             DialFails err \<Rightarrow>
               (Some err, c, Dial req # (if OnError c then [OnErrorCalled (ConnectFailed err)] else []))
           | DialSucceeds k \<Rightarrow>
               let c1 = c\<lparr>conn := Some k, isConnected := True, isReconnecting := False\<rparr>
               in (None, resubscribe keys c1,
                   [Dial req, Go Go_readLoop, Go Go_writeLoop, Go Go_heartbeatLoop]
                   @ (if OnConnect c1 then [OnConnectCalled] else [])))"

text \<open>
  \<^verbatim>\<open>Disconnect\<close>: cancel the context, close the connection if there is one, close
  \<^verbatim>\<open>closeChan\<close>. Closing a closed channel panics.
\<close>

definition Disconnect :: "WebSocketClient \<Rightarrow> fault option \<times> WebSocketClient \<times> event list" where
  "Disconnect c =
     (let c1 = c\<lparr>ctx_done := True\<rparr>;
          (c2, evs) = (case conn c1 of
                         Some k \<Rightarrow> (c1\<lparr>isConnected := False\<rparr>, [CtxCancel, ConnClose k])
                       | None \<Rightarrow> (c1, [CtxCancel]))
      in if closeChan_closed c2 then (Some CloseOfClosedChannel, c2, evs)
         else (None, c2\<lparr>closeChan_closed := True\<rparr>, evs))"

subsection \<open>Reconnect\<close>

text \<open>
  One pass through the body of the \<^verbatim>\<open>for\<close> loop of \<^verbatim>\<open>Reconnect\<close>, entered with the local
  variable \<^verbatim>\<open>attempts\<close>: it either returns or goes round again with the new value of
  \<^verbatim>\<open>attempts\<close>. \<open>dial n\<close> is what the dialer answers in the pass that raises \<^verbatim>\<open>attempts\<close>
  to \<open>n\<close>.
\<close>

datatype loop_ctl = Return | Continue int

definition Reconnect_body ::
  "(int \<Rightarrow> dial_outcome) \<Rightarrow> string list \<Rightarrow> WebSocketClient \<Rightarrow> int
     \<Rightarrow> loop_ctl \<times> WebSocketClient \<times> event list" where
  "Reconnect_body dial keys c attempts =
     (if ctx_done c then (Return, c, [])
      else
        let attempts' = attempts + 1;
            maxAttempts = MaxReconnectAttempts (config c)
        in if maxAttempts > 0 \<and> attempts' > maxAttempts
           then (Return, c, if OnError c then [OnErrorCalled (MaxReconnectReached maxAttempts)] else [])
           else case Connect (dial attempts') keys c of
                  (None, c', evs) \<Rightarrow> (Return, c', Sleep (ReconnectDelay (config c)) # evs)
                | (Some err, c', evs) \<Rightarrow>
                    (Continue attempts', c', Sleep (ReconnectDelay (config c)) # evs))"

text \<open>
  The loop itself; \<open>before\<close> are the events of the passes already made. With no limit on
  the attempts and a server that refuses every handshake it runs for ever: the result
  \<open>None\<close>.
\<close>

partial_function (option) Reconnect_loop ::
  "(int \<Rightarrow> dial_outcome) \<Rightarrow> string list \<Rightarrow> WebSocketClient \<Rightarrow> int \<Rightarrow> event list
     \<Rightarrow> (WebSocketClient \<times> event list) option" where
  "Reconnect_loop dial keys c attempts before =
     (case Reconnect_body dial keys c attempts of
        (Return, c', evs) \<Rightarrow> Some (c', before @ evs)
      | (Continue attempts', c', evs) \<Rightarrow> Reconnect_loop dial keys c' attempts' (before @ evs))"

text \<open>
  \<^verbatim>\<open>Reconnect\<close>, called by one goroutine at a time: the guard, the flag, the loop, and the
  deferred reset of the flag.
\<close>

definition Reconnect ::
  "(int \<Rightarrow> dial_outcome) \<Rightarrow> string list \<Rightarrow> WebSocketClient
     \<Rightarrow> (WebSocketClient \<times> event list) option" where
  "Reconnect dial keys c =
     (if isReconnecting c then Some (c, [])
      else case Reconnect_loop dial keys (c\<lparr>isReconnecting := True\<rparr>) 0 [] of
             None \<Rightarrow> None
           | Some (c', evs) \<Rightarrow> Some (c'\<lparr>isReconnecting := False\<rparr>, evs))"

subsection \<open>The dispatcher\<close>

record MessageHandler =
  UserMessageHandlers :: "func list"
  CardCallbackHandlers :: "func list"
  ApprovalChangeHandlers :: "func list"
  SystemHandlers :: "func list"

definition NewMessageHandler :: MessageHandler where
  "NewMessageHandler = \<lparr>UserMessageHandlers = [], CardCallbackHandlers = [],
     ApprovalChangeHandlers = [], SystemHandlers = []\<rparr>"

definition OnUserMessage :: "MessageHandler \<Rightarrow> func \<Rightarrow> MessageHandler" where
  "OnUserMessage h fn = h\<lparr>UserMessageHandlers := UserMessageHandlers h @ [fn]\<rparr>"

definition OnCardCallback :: "MessageHandler \<Rightarrow> func \<Rightarrow> MessageHandler" where
  "OnCardCallback h fn = h\<lparr>CardCallbackHandlers := CardCallbackHandlers h @ [fn]\<rparr>"

definition OnApprovalChange :: "MessageHandler \<Rightarrow> func \<Rightarrow> MessageHandler" where
  "OnApprovalChange h fn = h\<lparr>ApprovalChangeHandlers := ApprovalChangeHandlers h @ [fn]\<rparr>"

definition OnSystem :: "MessageHandler \<Rightarrow> func \<Rightarrow> MessageHandler" where
  "OnSystem h fn = h\<lparr>SystemHandlers := SystemHandlers h @ [fn]\<rparr>"

text \<open>\<^verbatim>\<open>json.Unmarshal\<close> into each of the four target types.\<close>

record codec =
  decode_WSMessage :: "bytes \<Rightarrow> WSMessage option"
  decode_UserMessage :: "bytes \<Rightarrow> UserMessage option"
  decode_CardCallback :: "bytes \<Rightarrow> CardCallback option"
  decode_ApprovalChange :: "bytes \<Rightarrow> ApprovalChange option"

text \<open>
  The handlers of one category, called in the order of registration. \<open>now\<close> is
  \<^verbatim>\<open>time.Now().Unix()\<close>.
\<close>

definition handleUserMessage ::
  "codec \<Rightarrow> int \<Rightarrow> MessageHandler \<Rightarrow> bytes \<Rightarrow> error + event list" where
  "handleUserMessage cd now h payload =
     (case decode_UserMessage cd payload of
        None \<Rightarrow> Inl (ParseUserMessageFailed JSONError)
      | Some msg \<Rightarrow>
          let msg' = (if Timestamp msg = 0 then msg\<lparr>Timestamp := now\<rparr> else msg)
          in Inr (map (\<lambda>fn. UserMessageHandlerCalled fn msg') (UserMessageHandlers h)))"

definition handleCardCallback ::
  "codec \<Rightarrow> int \<Rightarrow> MessageHandler \<Rightarrow> bytes \<Rightarrow> error + event list" where
  "handleCardCallback cd now h payload =
     (case decode_CardCallback cd payload of
        None \<Rightarrow> Inl (ParseCardCallbackFailed JSONError)
      | Some callback \<Rightarrow>
          let callback' = (if cb_Timestamp callback = 0 then callback\<lparr>cb_Timestamp := now\<rparr>
                           else callback)
          in Inr (map (\<lambda>fn. CardCallbackHandlerCalled fn callback') (CardCallbackHandlers h)))"

definition handleApprovalChange ::
  "codec \<Rightarrow> int \<Rightarrow> MessageHandler \<Rightarrow> bytes \<Rightarrow> error + event list" where
  "handleApprovalChange cd now h payload =
     (case decode_ApprovalChange cd payload of
        None \<Rightarrow> Inl (ParseApprovalChangeFailed JSONError)
      | Some change \<Rightarrow>
          let change' = (if ac_Timestamp change = 0 then change\<lparr>ac_Timestamp := now\<rparr>
                         else change)
          in Inr (map (\<lambda>fn. ApprovalChangeHandlerCalled fn change') (ApprovalChangeHandlers h)))"

definition handleSystem :: "MessageHandler \<Rightarrow> string \<Rightarrow> bytes \<Rightarrow> error + event list" where
  "handleSystem h ev data = Inr (map (\<lambda>fn. SystemHandlerCalled fn ev data) (SystemHandlers h))"

definition Handle :: "codec \<Rightarrow> int \<Rightarrow> MessageHandler \<Rightarrow> WSMessage \<Rightarrow> error + event list" where
  "Handle cd now h wsMsg =
     (if Event wsMsg = ''user_message'' then handleUserMessage cd now h (Payload wsMsg)
      else if Event wsMsg = ''card_callback'' then handleCardCallback cd now h (Payload wsMsg)
      else if Event wsMsg = ''approval_change'' then handleApprovalChange cd now h (Payload wsMsg)
      else handleSystem h (Event wsMsg) (Payload wsMsg))"

text \<open>
  \<^verbatim>\<open>NewWSClient\<close> pairs a client with a fresh handler and sets \<^verbatim>\<open>OnMessage\<close> to a closure
  over both. The closure calls \<^verbatim>\<open>ws.OnError\<close> without testing it for nil.
\<close>

record WSClient =
  ws :: WebSocketClient
  handler :: MessageHandler

definition NewWSClient :: "WebSocketConfig \<Rightarrow> WSClient" where
  "NewWSClient cfg =
     \<lparr>ws = (NewWebSocketClient cfg)\<lparr>OnMessage := Some HandlerOnMessage\<rparr>,
      handler = NewMessageHandler\<rparr>"

definition NewWSClient_closure ::
  "codec \<Rightarrow> int \<Rightarrow> MessageHandler \<Rightarrow> WebSocketClient \<Rightarrow> WSMessage \<Rightarrow> fault option \<times> event list" where
  "NewWSClient_closure cd now h c msg =
     (case Handle cd now h msg of
        Inr evs \<Rightarrow> (None, evs)
      | Inl err \<Rightarrow> if OnError c then (None, [OnErrorCalled err]) else (Some NilFunctionCall, []))"

subsection \<open>The reader\<close>

text \<open>
  What \<^verbatim>\<open>c.conn.ReadMessage()\<close> returns: an error, or a message; with the message goes the
  Unix time that its dispatch reads from the clock.
\<close>

datatype read_result = ReadError error | ReadMessage bytes int

text \<open>\<^verbatim>\<open>websocket.IsUnexpectedCloseError\<close> and the two close codes the reader passes to it.\<close>

definition CloseGoingAway :: int where
  "CloseGoingAway = 1001"

definition CloseAbnormalClosure :: int where
  "CloseAbnormalClosure = 1006"

definition IsUnexpectedCloseError :: "error \<Rightarrow> int list \<Rightarrow> bool" where
  "IsUnexpectedCloseError err expectedCodes =
     (case err of CloseError code \<Rightarrow> code \<notin> set expectedCodes | _ \<Rightarrow> False)"

text \<open>\<^verbatim>\<open>select { case c.readChan <- &wsMsg: default: }\<close>\<close>

definition push_readChan :: "WebSocketClient \<Rightarrow> WSMessage \<Rightarrow> WebSocketClient" where
  "push_readChan c m =
     (if length (readChan c) < readChan_cap then c\<lparr>readChan := readChan c @ [m]\<rparr> else c)"

text \<open>\<^verbatim>\<open>if c.OnMessage != nil { c.OnMessage(&wsMsg) }\<close>\<close>

definition call_OnMessage ::
  "codec \<Rightarrow> int \<Rightarrow> MessageHandler \<Rightarrow> WebSocketClient \<Rightarrow> WSMessage \<Rightarrow> fault option \<times> event list" where
  "call_OnMessage cd now h c m =
     (case OnMessage c of
        None \<Rightarrow> (None, [])
      | Some UserOnMessage \<Rightarrow> (None, [OnMessageCalled m])
      | Some HandlerOnMessage \<Rightarrow>
          (case NewWSClient_closure cd now h c m of (f, evs) \<Rightarrow> (f, OnMessageCalled m # evs)))"

text \<open>The events of an iteration, then what the rest of the loop returns.\<close>

definition after_events ::
  "event list \<Rightarrow> fault option \<times> WebSocketClient \<times> event list
     \<Rightarrow> fault option \<times> WebSocketClient \<times> event list" where
  "after_events evs r = (case r of (f, c, evs') \<Rightarrow> (f, c, evs @ evs'))"

text \<open>
  The \<^verbatim>\<open>for\<close> loop of \<^verbatim>\<open>readLoop\<close>, run on the results the socket delivers, in order. When
  they are used up nothing more arrives, the read deadline of 60 seconds passes and
  \<^verbatim>\<open>ReadMessage\<close> returns a timeout, which is no close error: the loop returns without a
  callback. \<open>h\<close> is the handler that the closure of \<^verbatim>\<open>NewWSClient\<close> points to.
\<close>

fun readLoop_for ::
  "codec \<Rightarrow> MessageHandler \<Rightarrow> WebSocketClient \<Rightarrow> read_result list
     \<Rightarrow> fault option \<times> WebSocketClient \<times> event list" where
  "readLoop_for cd h c [] = (None, c, [])"
| "readLoop_for cd h c (r # rs) =
     (if ctx_done c then (None, c, [])
      else case r of
        ReadError err \<Rightarrow>
          (None, c, if IsUnexpectedCloseError err [CloseGoingAway, CloseAbnormalClosure] \<and> OnError c
                    then [OnErrorCalled (ReadFailed err)] else [])
      | ReadMessage message now \<Rightarrow>
          (case decode_WSMessage cd message of
             None \<Rightarrow>
               after_events (if OnError c then [OnErrorCalled (ParseMessageFailed JSONError)] else [])
                 (readLoop_for cd h c rs)
           | Some wsMsg \<Rightarrow>
               if Type wsMsg = ''pong'' \<or> Event wsMsg = ''pong'' then readLoop_for cd h c rs
               else
                 let c1 = push_readChan c wsMsg
                 in (case call_OnMessage cd now h c1 wsMsg of
                       (Some f, evs) \<Rightarrow> (Some f, c1, evs)
                     | (None, evs) \<Rightarrow> after_events evs (readLoop_for cd h c1 rs))))"

definition handleDisconnect :: "WebSocketClient \<Rightarrow> WebSocketClient \<times> event list" where
  "handleDisconnect c =
     (let wasConnected = isConnected c;
          c1 = c\<lparr>isConnected := False\<rparr>
      in (c1, (if wasConnected \<and> OnDisconnect c1 then [OnDisconnectCalled ConnectionLost] else [])
              @ [Go Go_Reconnect]))"

text \<open>
  \<^verbatim>\<open>readLoop\<close>: the loop, then the deferred \<^verbatim>\<open>handleDisconnect\<close>, which runs whether the loop
  returns or panics.
\<close>

definition readLoop ::
  "codec \<Rightarrow> MessageHandler \<Rightarrow> WebSocketClient \<Rightarrow> read_result list
     \<Rightarrow> fault option \<times> WebSocketClient \<times> event list" where
  "readLoop cd h c inbound =
     (case readLoop_for cd h c inbound of
        (f, c1, evs) \<Rightarrow> (case handleDisconnect c1 of (c2, evs2) \<Rightarrow> (f, c2, evs @ evs2)))"

subsection \<open>Reconnect called from several goroutines\<close>

text \<open>
  \<^verbatim>\<open>Reconnect\<close> reads and writes \<^verbatim>\<open>isReconnecting\<close> without holding a lock, so between the
  test of the flag and its assignment another goroutine may run. A goroutine inside
  \<^verbatim>\<open>Reconnect\<close> is at one of these points: before the test of the flag, between the test
  and the assignment, at the head of the loop with its local \<^verbatim>\<open>attempts\<close>, or returned.
\<close>

datatype pc = At_guard | At_set_flag | At_loop int | Returned

text \<open>
  One move of one goroutine on the shared client. A pass through the loop body is taken as
  one move; the deferred reset of the flag belongs to the move that returns.
\<close>

fun Reconnect_step ::
  "(int \<Rightarrow> dial_outcome) \<Rightarrow> string list \<Rightarrow> WebSocketClient \<Rightarrow> pc
     \<Rightarrow> pc \<times> WebSocketClient \<times> event list" where
  "Reconnect_step dial keys c At_guard =
     (if isReconnecting c then (Returned, c, []) else (At_set_flag, c, []))"
| "Reconnect_step dial keys c At_set_flag = (At_loop 0, c\<lparr>isReconnecting := True\<rparr>, [])"
| "Reconnect_step dial keys c (At_loop attempts) =
     (case Reconnect_body dial keys c attempts of
        (Return, c', evs) \<Rightarrow> (Returned, c'\<lparr>isReconnecting := False\<rparr>, evs)
      | (Continue attempts', c', evs) \<Rightarrow> (At_loop attempts', c', evs))"
| "Reconnect_step dial keys c Returned = (Returned, c, [])"

text \<open>
  Several goroutines, each with its program point, and a schedule: the list of the
  goroutines in the order in which they move.
\<close>

fun run_schedule ::
  "(int \<Rightarrow> dial_outcome) \<Rightarrow> string list \<Rightarrow> nat list \<Rightarrow> WebSocketClient \<times> pc list \<times> event list
     \<Rightarrow> WebSocketClient \<times> pc list \<times> event list" where
  "run_schedule dial keys [] s = s"
| "run_schedule dial keys (i # sched) (c, pcs, evs) =
     (if i < length pcs
      then case Reconnect_step dial keys c (pcs ! i) of
             (p, c', evs') \<Rightarrow> run_schedule dial keys sched (c', pcs[i := p], evs @ evs')
      else run_schedule dial keys sched (c, pcs, evs))"

subsection \<open>Reading the events\<close>

fun is_Dial :: "event \<Rightarrow> bool" where
  "is_Dial (Dial req) = True"
| "is_Dial ev = False"

fun is_OnErrorCalled :: "event \<Rightarrow> bool" where
  "is_OnErrorCalled (OnErrorCalled err) = True"
| "is_OnErrorCalled ev = False"

fun is_OnDisconnectCalled :: "event \<Rightarrow> bool" where
  "is_OnDisconnectCalled (OnDisconnectCalled err) = True"
| "is_OnDisconnectCalled ev = False"

fun is_UserMessageHandlerCalled :: "event \<Rightarrow> bool" where
  "is_UserMessageHandlerCalled (UserMessageHandlerCalled fn msg) = True"
| "is_UserMessageHandlerCalled ev = False"

text \<open>The events of the reader's loop: calls of \<^verbatim>\<open>OnError\<close>, \<^verbatim>\<open>OnMessage\<close> and handlers.\<close>

fun reader_event :: "event \<Rightarrow> bool" where
  "reader_event (OnErrorCalled err) = True"
| "reader_event (OnMessageCalled m) = True"
| "reader_event (UserMessageHandlerCalled fn msg) = True"
| "reader_event (CardCallbackHandlerCalled fn callback) = True"
| "reader_event (ApprovalChangeHandlerCalled fn change) = True"
| "reader_event (SystemHandlerCalled fn ev data) = True"
| "reader_event ev = False"

text \<open>A read result that the reader's test \<^verbatim>\<open>wsMsg.Type == "pong" || wsMsg.Event == "pong"\<close> catches.\<close>

definition is_pong_frame :: "codec \<Rightarrow> read_result \<Rightarrow> bool" where
  "is_pong_frame cd r =
     (case r of
        ReadError err \<Rightarrow> False
      | ReadMessage message now \<Rightarrow>
          (case decode_WSMessage cd message of
             None \<Rightarrow> False
           | Some wsMsg \<Rightarrow> Type wsMsg = ''pong'' \<or> Event wsMsg = ''pong''))"

subsection \<open>Sample inputs\<close>

text \<open>
  Concrete values for the closed examples below: a configuration, a server that refuses
  every handshake, four messages, a decoder that knows four byte strings, and a client
  whose outbound queue is full while it tracks one topic.
\<close>

definition sample_config :: WebSocketConfig where
  "sample_config = \<lparr>URL = ''ws://hub.example/ws'', Token = ''secret'',
     HeartbeatInterval = 0, ReconnectDelay = 0, MaxReconnectAttempts = 3\<rparr>"

definition refusing_server :: "int \<Rightarrow> dial_outcome" where
  "refusing_server n = DialFails (TransportError ''connection refused'')"

definition ping_message :: WSMessage where
  "ping_message = \<lparr>Type = ''ping'', Event = ''ping'', Payload = [], Seq = 0\<rparr>"

definition pong_message :: WSMessage where
  "pong_message = \<lparr>Type = ''pong'', Event = ''pong'', Payload = [], Seq = 0\<rparr>"

definition user_frame :: WSMessage where
  "user_frame = \<lparr>Type = ''event'', Event = ''user_message'', Payload = ''user-payload'', Seq = 1\<rparr>"

definition hello :: UserMessage where
  "hello = \<lparr>MessageID = ''m1'', UserID = ''u1'', UserName = ''ann'', Content = ''hello'',
     MessageType = ''text'', ChannelID = ''ch1'', GroupID = [], Timestamp = 0, Raw = []\<rparr>"

definition sample_codec :: codec where
  "sample_codec =
     \<lparr>decode_WSMessage = (\<lambda>b. if b = ''ping-frame'' then Some ping_message
                               else if b = ''pong-frame'' then Some pong_message
                               else if b = ''user-frame'' then Some user_frame else None),
      decode_UserMessage = (\<lambda>b. if b = ''user-payload'' then Some hello else None),
      decode_CardCallback = (\<lambda>b. None),
      decode_ApprovalChange = (\<lambda>b. None)\<rparr>"

definition full_queue_client :: WebSocketClient where
  "full_queue_client =
     (NewWebSocketClient sample_config)
       \<lparr>subscriptions := [''room'' \<mapsto> True],
        writeChan := replicate 100 (JSON_WSMessage ping_message)\<rparr>"

text \<open>A client with an empty queue that tracks 101 topics: \<^verbatim>\<open>t\<close>, \<^verbatim>\<open>tt\<close>, and so on.\<close>

definition many_topics :: "string list" where
  "many_topics = map (\<lambda>n. replicate n CHR ''t'') [1..<102]"

definition many_topics_client :: WebSocketClient where
  "many_topics_client =
     (NewWebSocketClient sample_config)
       \<lparr>subscriptions := map_of (map (\<lambda>topic. (topic, True)) many_topics)\<rparr>"

section \<open>Properties\<close>

subsection \<open>Disconnect\<close>

lemma Disconnect_again:
  "Disconnect c = (None, c', evs) \<Longrightarrow> fst (Disconnect c') = Some CloseOfClosedChannel"
  by (auto simp: Disconnect_def Let_def split: option.splits if_splits)

text \<open>
  Claim C2: calling \<^verbatim>\<open>Disconnect\<close> again on the same client is safe. It is not: the first
  call on a new client closes \<^verbatim>\<open>closeChan\<close>, and the second call, on the client the first
  one leaves, panics with a close of a closed channel.
\<close>

theorem Disconnect_twice_panics:
  "Disconnect (NewWebSocketClient sample_config)
     = (None, (NewWebSocketClient sample_config)\<lparr>ctx_done := True, closeChan_closed := True\<rparr>,
        [CtxCancel])
   \<and> Disconnect ((NewWebSocketClient sample_config)\<lparr>ctx_done := True, closeChan_closed := True\<rparr>)
     = (Some CloseOfClosedChannel,
        (NewWebSocketClient sample_config)\<lparr>ctx_done := True, closeChan_closed := True\<rparr>,
        [CtxCancel])"
  by (simp add: Disconnect_def NewWebSocketClient_def Let_def sample_config_def)

subsection \<open>Connect\<close>

lemma handshake_request_ignores_URL:
  "handshake_request (cfg\<lparr>URL := u\<rparr>) = handshake_request cfg"
  by (simp add: handshake_request_def)

text \<open>
  Claim C3: \<^verbatim>\<open>Connect\<close> dials the endpoint URL of the configuration, with a timeout of ten
  seconds and the bearer token in the header. Timeout and header are as claimed; the URL
  that is dialled is built from the token alone, and the field \<^verbatim>\<open>URL\<close> is not read: with
  the URL \<^verbatim>\<open>ws://hub.example/ws\<close> and the token \<^verbatim>\<open>secret\<close> the dial goes to
  \<^verbatim>\<open>secret?token=secret\<close>.
\<close>

theorem Connect_dials_token:
  "Connect (DialFails (TransportError ''refused'')) [] (NewWebSocketClient sample_config)
     = (Some (TransportError ''refused''), NewWebSocketClient sample_config,
        [Dial \<lparr>dial_url = ''secret?token=secret'', HandshakeTimeout = 10 * Second,
               dial_header = [(''Authorization'', ''Bearer secret'')]\<rparr>])"
  by (simp add: Connect_def handshake_request_def NewWebSocketClient_def Let_def sample_config_def)

subsection \<open>Subscriptions\<close>

text \<open>
  Claim C4: for a topic that is not tracked, \<^verbatim>\<open>Subscribe\<close> adds it to the tracked set exactly
  when the frame is enqueued; with a full queue it returns the error and leaves the client
  as it was. For a tracked topic \<^verbatim>\<open>Unsubscribe\<close> does the same in the other direction.
\<close>

theorem Subscribe_iff_enqueued:
  "(\<not> subscribed c t \<longrightarrow>
      (length (writeChan c) < writeChan_cap \<longrightarrow>
         Subscribe c t = (None, c\<lparr>writeChan := writeChan c @ [JSON_WSSubscribeRequest ''subscribe'' t],
                                  subscriptions := (subscriptions c)(t \<mapsto> True)\<rparr>))
      \<and> (\<not> length (writeChan c) < writeChan_cap \<longrightarrow> Subscribe c t = (Some SendChannelFull, c))
      \<and> (subscribed (snd (Subscribe c t)) t \<longleftrightarrow> length (writeChan c) < writeChan_cap))
   \<and> (subscribed c t \<longrightarrow>
      (length (writeChan c) < writeChan_cap \<longrightarrow>
         Unsubscribe c t = (None, c\<lparr>writeChan := writeChan c @ [JSON_WSSubscribeRequest ''unsubscribe'' t],
                                    subscriptions := (subscriptions c)(t := None)\<rparr>))
      \<and> (\<not> length (writeChan c) < writeChan_cap \<longrightarrow> Unsubscribe c t = (Some SendChannelFull, c))
      \<and> (\<not> subscribed (snd (Unsubscribe c t)) t \<longleftrightarrow> length (writeChan c) < writeChan_cap))"
  by (auto simp: Subscribe_def Unsubscribe_def try_send_def subscribed_def)

theorem Subscribe_iff_enqueued_witness:
  "\<not> subscribed (NewWebSocketClient sample_config) ''room''
   \<and> length (writeChan (NewWebSocketClient sample_config)) < writeChan_cap
   \<and> Subscribe (NewWebSocketClient sample_config) ''room''
       = (None, (NewWebSocketClient sample_config)
                  \<lparr>writeChan := [JSON_WSSubscribeRequest ''subscribe'' ''room''],
                   subscriptions := [''room'' \<mapsto> True]\<rparr>)
   \<and> \<not> subscribed full_queue_client ''news''
   \<and> \<not> length (writeChan full_queue_client) < writeChan_cap
   \<and> Subscribe full_queue_client ''news'' = (Some SendChannelFull, full_queue_client)
   \<and> subscribed full_queue_client ''room''
   \<and> Unsubscribe full_queue_client ''room'' = (Some SendChannelFull, full_queue_client)
   \<and> subscribed ((NewWebSocketClient sample_config)\<lparr>subscriptions := [''room'' \<mapsto> True]\<rparr>) ''room''
   \<and> Unsubscribe ((NewWebSocketClient sample_config)\<lparr>subscriptions := [''room'' \<mapsto> True]\<rparr>) ''room''
       = (None, (NewWebSocketClient sample_config)
                  \<lparr>subscriptions := Map.empty,
                   writeChan := [JSON_WSSubscribeRequest ''unsubscribe'' ''room'']\<rparr>)"
  using Subscribe_iff_enqueued [of "NewWebSocketClient sample_config" "''room''"]
    Subscribe_iff_enqueued [of full_queue_client "''news''"]
    Subscribe_iff_enqueued [of full_queue_client "''room''"]
    Subscribe_iff_enqueued [of "(NewWebSocketClient sample_config)\<lparr>subscriptions := [''room'' \<mapsto> True]\<rparr>" "''room''"]
  by (simp add: subscribed_def NewWebSocketClient_def full_queue_client_def writeChan_cap_def Let_def)

text \<open>
  Claim C6: two calls of \<^verbatim>\<open>Subscribe\<close> in a row for a topic \<open>T\<close>, not tracked before the first
  call, both without error, enqueue one subscribe frame: the second call returns no error
  and changes nothing.
\<close>

theorem Subscribe_twice_one_frame:
  assumes "\<not> subscribed c T" and "Subscribe c T = (None, c1)" and "Subscribe c1 T = (r2, c2)"
  shows "r2 = None \<and> c2 = c1
         \<and> writeChan c2 = writeChan c @ [JSON_WSSubscribeRequest ''subscribe'' T]"
  using assms
  by (auto simp: Subscribe_def try_send_def subscribed_def split: if_splits)

theorem Subscribe_twice_one_frame_witness:
  "\<not> subscribed (NewWebSocketClient sample_config) ''room''
   \<and> Subscribe (NewWebSocketClient sample_config) ''room''
       = (None, (NewWebSocketClient sample_config)
                  \<lparr>writeChan := [JSON_WSSubscribeRequest ''subscribe'' ''room''],
                   subscriptions := [''room'' \<mapsto> True]\<rparr>)
   \<and> Subscribe ((NewWebSocketClient sample_config)
                  \<lparr>writeChan := [JSON_WSSubscribeRequest ''subscribe'' ''room''],
                   subscriptions := [''room'' \<mapsto> True]\<rparr>) ''room''
       = (None, (NewWebSocketClient sample_config)
                  \<lparr>writeChan := [JSON_WSSubscribeRequest ''subscribe'' ''room''],
                   subscriptions := [''room'' \<mapsto> True]\<rparr>)"
proof -
  let ?c = "NewWebSocketClient sample_config"
  let ?c1 = "?c\<lparr>writeChan := [JSON_WSSubscribeRequest ''subscribe'' ''room''],
                 subscriptions := [''room'' \<mapsto> True]\<rparr>"
  have a: "\<not> subscribed ?c ''room''"
    by (simp add: subscribed_def NewWebSocketClient_def Let_def)
  have b: "Subscribe ?c ''room'' = (None, ?c1)"
    by (simp add: Subscribe_def subscribed_def try_send_def NewWebSocketClient_def Let_def
        writeChan_cap_def)
  have c: "Subscribe ?c1 ''room'' = (fst (Subscribe ?c1 ''room''), snd (Subscribe ?c1 ''room''))"
    by simp
  from Subscribe_twice_one_frame [OF a b c]
  have "Subscribe ?c1 ''room'' = (None, ?c1)"
    by (simp add: prod_eq_iff)
  with a b show ?thesis by simp
qed

subsection \<open>Replay of the subscriptions\<close>

lemma writeChan_resubscribe:
  "writeChan (resubscribe keys c)
     = writeChan c @ take (writeChan_cap - length (writeChan c))
                          (map (JSON_WSSubscribeRequest ''subscribe'') keys)"
proof (induction keys arbitrary: c)
  case Nil
  show ?case by (simp add: resubscribe_def)
next
  case (Cons k keys)
  have step: "resubscribe (k # keys) c = resubscribe keys (resubscribe_send k c)"
    by (simp add: resubscribe_def)
  show ?case
  proof (cases "length (writeChan c) < writeChan_cap")
    case True
    then have "writeChan (resubscribe_send k c) = writeChan c @ [JSON_WSSubscribeRequest ''subscribe'' k]"
      by (simp add: resubscribe_send_def try_send_def)
    with True show ?thesis
      unfolding step Cons.IH by (simp add: take_Cons' Suc_diff_Suc)
  next
    case False
    then have "resubscribe_send k c = c"
      by (simp add: resubscribe_send_def try_send_def)
    with False show ?thesis
      unfolding step Cons.IH by simp
  qed
qed

lemma resubscribe_only_writeChan:
  "resubscribe keys c = c\<lparr>writeChan := writeChan (resubscribe keys c)\<rparr>"
proof (induction keys arbitrary: c)
  case Nil
  show ?case by (simp add: resubscribe_def)
next
  case (Cons k keys)
  have step: "resubscribe (k # keys) c = resubscribe keys (resubscribe_send k c)"
    by (simp add: resubscribe_def)
  have one: "resubscribe_send k c = c\<lparr>writeChan := writeChan (resubscribe_send k c)\<rparr>"
    by (simp add: resubscribe_send_def try_send_def)
  show ?case
    unfolding step by (subst Cons.IH, subst one) simp
qed

lemma count_list_sub_frames:
  "distinct keys \<Longrightarrow>
   count_list (map (JSON_WSSubscribeRequest ''subscribe'') keys) (JSON_WSSubscribeRequest ''subscribe'' t)
     = (if t \<in> set keys then 1 else 0)"
  by (induction keys) auto

text \<open>
  Claim C7, as the code has it: a successful \<^verbatim>\<open>Connect\<close> of a client that is not connected
  appends to the outbound queue the subscribe frames of the tracked topics, in the order of
  the range over the map, as far as the queue has room, and drops the others. When the free
  room of the queue covers the tracked set, every tracked topic gets exactly one frame, and
  no other topic gets one.
\<close>

theorem Connect_replays_subscriptions:
  assumes "\<not> isConnected c" and "range_of keys (subscriptions c)"
    and "Connect (DialSucceeds k) keys c = (r, c', evs)"
  shows "r = None \<and> isConnected c' \<and> subscriptions c' = subscriptions c
         \<and> writeChan c' = writeChan c @ take (writeChan_cap - length (writeChan c))
                                             (map (JSON_WSSubscribeRequest ''subscribe'') keys)
         \<and> (length (writeChan c) + card (dom (subscriptions c)) \<le> writeChan_cap \<longrightarrow>
              (\<forall>t. count_list (drop (length (writeChan c)) (writeChan c'))
                               (JSON_WSSubscribeRequest ''subscribe'' t)
                    = (if t \<in> dom (subscriptions c) then 1 else 0)))"
proof -
  let ?c1 = "c\<lparr>conn := Some k, isConnected := True, isReconnecting := False\<rparr>"
  from assms(1,3) have r: "r = None" and c': "c' = resubscribe keys ?c1"
    by (auto simp: Connect_def Let_def)
  have shape: "c' = ?c1\<lparr>writeChan := writeChan c'\<rparr>"
    unfolding c' by (rule resubscribe_only_writeChan)
  have conn: "isConnected c'" and subs: "subscriptions c' = subscriptions c"
    by (subst shape, simp)+
  have q: "writeChan c' = writeChan c @ take (writeChan_cap - length (writeChan c))
                                             (map (JSON_WSSubscribeRequest ''subscribe'') keys)"
    unfolding c' by (simp add: writeChan_resubscribe)
  from assms(2) have d: "distinct keys" and s: "set keys = dom (subscriptions c)"
    by (simp_all add: range_of_def)
  have len: "card (dom (subscriptions c)) = length keys"
    using d s by (metis distinct_card)
  have "\<forall>t. count_list (drop (length (writeChan c)) (writeChan c'))
                               (JSON_WSSubscribeRequest ''subscribe'' t)
                    = (if t \<in> dom (subscriptions c) then 1 else 0)"
    if "length (writeChan c) + card (dom (subscriptions c)) \<le> writeChan_cap"
  proof -
    from that len have "drop (length (writeChan c)) (writeChan c')
        = map (JSON_WSSubscribeRequest ''subscribe'') keys"
      unfolding q by simp
    then show ?thesis using d s by (simp add: count_list_sub_frames)
  qed
  with r conn subs q show ?thesis by blast
qed

theorem Connect_replays_subscriptions_witness:
  "\<not> isConnected ((NewWebSocketClient sample_config)
                     \<lparr>subscriptions := [''room'' \<mapsto> True, ''alerts'' \<mapsto> True]\<rparr>)
   \<and> range_of [''alerts'', ''room'']
        (subscriptions ((NewWebSocketClient sample_config)
                     \<lparr>subscriptions := [''room'' \<mapsto> True, ''alerts'' \<mapsto> True]\<rparr>))
   \<and> writeChan (fst (snd (Connect (DialSucceeds 1) [''alerts'', ''room'']
        ((NewWebSocketClient sample_config)
                     \<lparr>subscriptions := [''room'' \<mapsto> True, ''alerts'' \<mapsto> True]\<rparr>))))
       = [JSON_WSSubscribeRequest ''subscribe'' ''alerts'', JSON_WSSubscribeRequest ''subscribe'' ''room'']
   \<and> count_list (writeChan (fst (snd (Connect (DialSucceeds 1) [''alerts'', ''room'']
        ((NewWebSocketClient sample_config)
                     \<lparr>subscriptions := [''room'' \<mapsto> True, ''alerts'' \<mapsto> True]\<rparr>)))))
        (JSON_WSSubscribeRequest ''subscribe'' ''room'') = 1"
proof -
  let ?c = "(NewWebSocketClient sample_config)
                     \<lparr>subscriptions := [''room'' \<mapsto> True, ''alerts'' \<mapsto> True]\<rparr>"
  let ?R = "Connect (DialSucceeds 1) [''alerts'', ''room''] ?c"
  have a: "\<not> isConnected ?c"
    by (simp add: NewWebSocketClient_def Let_def)
  have b: "range_of [''alerts'', ''room''] (subscriptions ?c)"
    by (auto simp: range_of_def)
  have c: "?R = (fst ?R, fst (snd ?R), snd (snd ?R))"
    by simp
  have q: "writeChan ?c = []"
    by (simp add: NewWebSocketClient_def Let_def)
  have d: "card (dom (subscriptions ?c)) = 2"
    by simp
  from Connect_replays_subscriptions [OF a b c]
  have "writeChan (fst (snd ?R))
       = [JSON_WSSubscribeRequest ''subscribe'' ''alerts'', JSON_WSSubscribeRequest ''subscribe'' ''room'']"
    and "count_list (writeChan (fst (snd ?R))) (JSON_WSSubscribeRequest ''subscribe'' ''room'') = 1"
    unfolding q d by (simp_all add: writeChan_cap_def)
  with a b show ?thesis by simp
qed

lemma distinct_many_topics: "distinct many_topics"
  by (simp add: many_topics_def distinct_map inj_on_def)

lemma range_of_many_topics: "range_of many_topics (subscriptions many_topics_client)"
  by (simp add: range_of_def distinct_many_topics many_topics_client_def
      dom_map_of_conv_image_fst image_image)

lemma many_topics_split:
  "many_topics = map (\<lambda>n. replicate n CHR ''t'') [1..<101] @ [replicate 101 CHR ''t'']"
proof -
  have "[1..<102] = [1..<101] @ [101::nat]"
    by (simp add: upt_rec)
  then show ?thesis by (simp add: many_topics_def)
qed

text \<open>
  Claim C7 as stated, every tracked topic re-sent once by the replay, fails when the queue
  has less room than there are topics: the client tracks 101 topics, its queue is empty,
  \<^verbatim>\<open>Connect\<close> succeeds, and the replay leaves 100 frames in the queue, none of them for the
  topic that the range yields last.
\<close>

theorem replay_drops_topic_101:
  "\<not> isConnected many_topics_client
   \<and> writeChan many_topics_client = []
   \<and> range_of many_topics (subscriptions many_topics_client)
   \<and> subscriptions many_topics_client (replicate 101 CHR ''t'') = Some True
   \<and> fst (Connect (DialSucceeds 1) many_topics many_topics_client) = None
   \<and> length (writeChan (fst (snd (Connect (DialSucceeds 1) many_topics many_topics_client)))) = 100
   \<and> JSON_WSSubscribeRequest ''subscribe'' (replicate 101 CHR ''t'')
       \<notin> set (writeChan (fst (snd (Connect (DialSucceeds 1) many_topics many_topics_client))))"
proof -
  let ?R = "Connect (DialSucceeds 1) many_topics many_topics_client"
  have a: "\<not> isConnected many_topics_client" and q: "writeChan many_topics_client = []"
    by (simp_all add: many_topics_client_def NewWebSocketClient_def Let_def)
  have r: "fst ?R = None"
    and c: "fst (snd ?R) = resubscribe many_topics
        (many_topics_client\<lparr>conn := Some 1, isConnected := True, isReconnecting := False\<rparr>)"
    using a by (simp_all add: Connect_def Let_def)
  have w: "writeChan (fst (snd ?R))
      = map (JSON_WSSubscribeRequest ''subscribe'') (map (\<lambda>n. replicate n CHR ''t'') [1..<101])"
    unfolding c writeChan_resubscribe
    by (simp add: q writeChan_cap_def many_topics_split del: upt_Suc)
  have tracked: "subscriptions many_topics_client (replicate 101 CHR ''t'') = Some True"
  proof -
    have "replicate 101 CHR ''t'' \<in> set many_topics"
      unfolding many_topics_split by simp
    then have "(replicate 101 CHR ''t'', True) \<in> set (map (\<lambda>topic. (topic, True)) many_topics)"
      by auto
    moreover have "distinct (map fst (map (\<lambda>topic. (topic, True)) many_topics))"
      by (simp add: o_def distinct_many_topics)
    ultimately show ?thesis
      by (simp add: many_topics_client_def)
  qed
  have missing: "JSON_WSSubscribeRequest ''subscribe'' (replicate 101 CHR ''t'')
       \<notin> set (writeChan (fst (snd ?R)))"
    unfolding w by (auto simp: replicate_eq_replicate)
  have "length (writeChan (fst (snd ?R))) = 100"
    unfolding w by simp
  with a q r tracked missing range_of_many_topics show ?thesis by simp
qed

subsection \<open>The reader\<close>

lemma readLoop_for_done: "ctx_done c \<Longrightarrow> readLoop_for cd h c rs = (None, c, [])"
  by (cases rs) simp_all

lemma after_events_eq:
  "after_events evs r = (f, c', all) \<Longrightarrow> \<exists>evs'. r = (f, c', evs') \<and> all = evs @ evs'"
  by (auto simp: after_events_def split: prod.splits)

lemma Handle_events:
  "Handle cd now h m = Inr evs \<Longrightarrow> ev \<in> set evs
     \<Longrightarrow> reader_event ev \<and> (\<forall>m'. ev \<noteq> OnMessageCalled m')"
  by (auto simp: Handle_def handleUserMessage_def handleCardCallback_def
      handleApprovalChange_def handleSystem_def Let_def split: option.splits if_splits)

lemma call_OnMessage_reader_events:
  "call_OnMessage cd now h c m = (f, evs) \<Longrightarrow> ev \<in> set evs \<Longrightarrow> reader_event ev"
  by (auto simp: call_OnMessage_def NewWSClient_closure_def
      split: option.splits on_message.splits sum.splits if_splits prod.splits dest: Handle_events)

lemma call_OnMessage_events:
  "call_OnMessage cd now h c m' = (f, evs) \<Longrightarrow> OnMessageCalled m \<in> set evs \<Longrightarrow> m = m'"
  by (auto simp: call_OnMessage_def NewWSClient_closure_def
      split: option.splits on_message.splits sum.splits if_splits prod.splits dest: Handle_events)

lemma readLoop_for_skips_pong:
  "readLoop_for cd h c (filter (\<lambda>r. \<not> is_pong_frame cd r) inbound) = readLoop_for cd h c inbound"
proof (induction inbound arbitrary: c)
  case Nil
  show ?case by simp
next
  case (Cons r rs)
  show ?case
  proof (cases "is_pong_frame cd r")
    case True
    then obtain message now wsMsg where r: "r = ReadMessage message now"
      and dec: "decode_WSMessage cd message = Some wsMsg"
      and pong: "Type wsMsg = ''pong'' \<or> Event wsMsg = ''pong''"
      by (auto simp: is_pong_frame_def split: read_result.splits option.splits)
    show ?thesis
    proof (cases "ctx_done c")
      case True
      then show ?thesis by (simp add: readLoop_for_done)
    next
      case False
      with r dec pong \<open>is_pong_frame cd r\<close> show ?thesis
        using Cons.IH [of c] by auto
    qed
  next
    case False
    then have keep: "filter (\<lambda>r. \<not> is_pong_frame cd r) (r # rs)
        = r # filter (\<lambda>r. \<not> is_pong_frame cd r) rs"
      by simp
    from False have np: "Type wsMsg \<noteq> ''pong'' \<and> Event wsMsg \<noteq> ''pong''"
      if "r = ReadMessage message now" and "decode_WSMessage cd message = Some wsMsg"
      for message now wsMsg
      using that by (simp add: is_pong_frame_def)
    show ?thesis
    proof (cases r)
      case (ReadError err)
      then show ?thesis unfolding keep by simp
    next
      case (ReadMessage message now)
      show ?thesis
      proof (cases "decode_WSMessage cd message")
        case None
        with ReadMessage show ?thesis unfolding keep by (simp add: Cons.IH)
      next
        case (Some wsMsg)
        with ReadMessage np [OF ReadMessage Some] show ?thesis
          unfolding keep by (simp add: Cons.IH Let_def split: prod.splits option.splits)
      qed
    qed
  qed
qed

text \<open>
  One pass through the loop either ends it or hands over to the rest of the loop; its own
  events are calls of \<^verbatim>\<open>OnError\<close>, \<^verbatim>\<open>OnMessage\<close> and handlers, and no message that the
  callback receives carries \<^verbatim>\<open>pong\<close>.
\<close>

lemma readLoop_for_Cons:
  assumes "readLoop_for cd h c (r # rs) = (f, c', evs)"
  shows "(isConnected c' = isConnected c \<and> OnDisconnect c' = OnDisconnect c
          \<and> (\<forall>ev\<in>set evs. reader_event ev)
          \<and> (\<forall>m. OnMessageCalled m \<in> set evs \<longrightarrow> Type m \<noteq> ''pong'' \<and> Event m \<noteq> ''pong''))
       \<or> (\<exists>c1 evs1 evs'. readLoop_for cd h c1 rs = (f, c', evs') \<and> evs = evs1 @ evs'
            \<and> isConnected c1 = isConnected c \<and> OnDisconnect c1 = OnDisconnect c
            \<and> (\<forall>ev\<in>set evs1. reader_event ev)
            \<and> (\<forall>m. OnMessageCalled m \<in> set evs1 \<longrightarrow> Type m \<noteq> ''pong'' \<and> Event m \<noteq> ''pong''))"
proof (cases "ctx_done c")
  case True
  with assms show ?thesis by simp
next
  case False
  note live = this
  show ?thesis
  proof (cases r)
    case (ReadError err)
    with live assms show ?thesis by (auto split: if_splits)
  next
    case (ReadMessage message now)
    show ?thesis
    proof (cases "decode_WSMessage cd message")
      case None
      with live ReadMessage assms obtain evs' where
        "readLoop_for cd h c rs = (f, c', evs')"
        and "evs = (if OnError c then [OnErrorCalled (ParseMessageFailed JSONError)] else []) @ evs'"
        by (auto dest: after_events_eq)
      then show ?thesis by (intro disjI2) (rule exI [of _ c], auto)
    next
      case (Some wsMsg)
      show ?thesis
      proof (cases "Type wsMsg = ''pong'' \<or> Event wsMsg = ''pong''")
        case True
        with live ReadMessage Some assms have "readLoop_for cd h c rs = (f, c', evs)" by auto
        then show ?thesis by (intro disjI2) (rule exI [of _ c], rule exI [of _ "[]"], auto)
      next
        case False
        let ?c1 = "push_readChan c wsMsg"
        obtain g evs1 where call: "call_OnMessage cd now h ?c1 wsMsg = (g, evs1)"
          by (cases "call_OnMessage cd now h ?c1 wsMsg") auto
        have same: "isConnected ?c1 = isConnected c" "OnDisconnect ?c1 = OnDisconnect c"
          by (simp_all add: push_readChan_def)
        from call have a: "\<forall>ev\<in>set evs1. reader_event ev"
          by (auto dest: call_OnMessage_reader_events)
        from call False
        have b: "\<forall>m. OnMessageCalled m \<in> set evs1 \<longrightarrow> Type m \<noteq> ''pong'' \<and> Event m \<noteq> ''pong''"
          by (auto dest: call_OnMessage_events)
        show ?thesis
        proof (cases g)
          case (Some flt)
          with live ReadMessage \<open>decode_WSMessage cd message = Some wsMsg\<close> False call assms
          have "c' = ?c1" and "evs = evs1"
            by (auto simp: Let_def)
          with same a b show ?thesis by simp
        next
          case None
          with live ReadMessage \<open>decode_WSMessage cd message = Some wsMsg\<close> False call assms
          obtain evs' where rest: "readLoop_for cd h ?c1 rs = (f, c', evs')"
            and evs: "evs = evs1 @ evs'"
            by (auto simp: Let_def dest: after_events_eq)
          with same a b show ?thesis
            by (intro disjI2) (rule exI [of _ ?c1], blast)
        qed
      qed
    qed
  qed
qed

lemma readLoop_for_invariant:
  "readLoop_for cd h c inbound = (f, c', evs) \<Longrightarrow>
     isConnected c' = isConnected c \<and> OnDisconnect c' = OnDisconnect c
     \<and> (\<forall>ev\<in>set evs. reader_event ev)
     \<and> (\<forall>m. OnMessageCalled m \<in> set evs \<longrightarrow> Type m \<noteq> ''pong'' \<and> Event m \<noteq> ''pong'')"
proof (induction inbound arbitrary: c evs)
  case Nil
  then show ?case by simp
next
  case (Cons r rs)
  from readLoop_for_Cons [OF Cons.prems] show ?case
  proof (elim disjE exE conjE)
    assume "isConnected c' = isConnected c" "OnDisconnect c' = OnDisconnect c"
      "\<forall>ev\<in>set evs. reader_event ev"
      "\<forall>m. OnMessageCalled m \<in> set evs \<longrightarrow> Type m \<noteq> ''pong'' \<and> Event m \<noteq> ''pong''"
    then show ?thesis by simp
  next
    fix c1 evs1 evs'
    assume rest: "readLoop_for cd h c1 rs = (f, c', evs')" and evs: "evs = evs1 @ evs'"
      and same: "isConnected c1 = isConnected c" "OnDisconnect c1 = OnDisconnect c"
      and a: "\<forall>ev\<in>set evs1. reader_event ev"
      and b: "\<forall>m. OnMessageCalled m \<in> set evs1 \<longrightarrow> Type m \<noteq> ''pong'' \<and> Event m \<noteq> ''pong''"
    from Cons.IH [OF rest] same evs a b show ?thesis by auto
  qed
qed

lemma reader_events_no_OnDisconnect:
  "\<forall>ev\<in>set evs. reader_event ev \<Longrightarrow> filter is_OnDisconnectCalled evs = []"
proof -
  have "reader_event ev \<Longrightarrow> \<not> is_OnDisconnectCalled ev" for ev
    by (cases ev) simp_all
  then show "\<forall>ev\<in>set evs. reader_event ev \<Longrightarrow> filter is_OnDisconnectCalled evs = []"
    by (simp add: filter_empty_conv)
qed

lemma sample_reader_run:
  "readLoop sample_codec (OnUserMessage NewMessageHandler 7) (ws (NewWSClient sample_config))
       [ReadMessage ''user-frame'' 5]
     = (None, (ws (NewWSClient sample_config))\<lparr>readChan := [user_frame]\<rparr>,
        [OnMessageCalled user_frame, UserMessageHandlerCalled 7 (hello\<lparr>Timestamp := 5\<rparr>),
         Go Go_Reconnect])"
  by (simp add: readLoop_def handleDisconnect_def call_OnMessage_def NewWSClient_closure_def
      Handle_def handleUserMessage_def sample_codec_def user_frame_def hello_def
      push_readChan_def readChan_cap_def after_events_def NewWSClient_def
      NewWebSocketClient_def NewMessageHandler_def OnUserMessage_def Let_def sample_config_def)

text \<open>
  Claim C1, as the code has it: a frame whose type or event is \<^verbatim>\<open>pong\<close> is consumed
  silently. Taking these frames out of what the socket delivers changes nothing in the
  result of the reader (client, events, fault), so they reach neither \<^verbatim>\<open>readChan\<close> nor a
  callback nor a handler; and \<^verbatim>\<open>OnMessage\<close> is never called with such a message.
\<close>

theorem pong_frames_consumed_silently:
  "readLoop cd h c (filter (\<lambda>r. \<not> is_pong_frame cd r) inbound) = readLoop cd h c inbound
   \<and> (\<forall>m. OnMessageCalled m \<in> set (snd (snd (readLoop cd h c inbound)))
          \<longrightarrow> Type m \<noteq> ''pong'' \<and> Event m \<noteq> ''pong'')"
proof
  show "readLoop cd h c (filter (\<lambda>r. \<not> is_pong_frame cd r) inbound) = readLoop cd h c inbound"
    by (simp add: readLoop_def readLoop_for_skips_pong)
next
  obtain f c1 pre where loop: "readLoop_for cd h c inbound = (f, c1, pre)"
    by (cases "readLoop_for cd h c inbound") auto
  then have evs: "snd (snd (readLoop cd h c inbound)) = pre @ snd (handleDisconnect c1)"
    by (simp add: readLoop_def split: prod.splits)
  have tail: "OnMessageCalled m \<notin> set (snd (handleDisconnect c1))" for m
    by (simp add: handleDisconnect_def Let_def)
  from readLoop_for_invariant [OF loop]
  have "\<forall>m. OnMessageCalled m \<in> set pre \<longrightarrow> Type m \<noteq> ''pong'' \<and> Event m \<noteq> ''pong''"
    by blast
  with tail show "\<forall>m. OnMessageCalled m \<in> set (snd (snd (readLoop cd h c inbound)))
          \<longrightarrow> Type m \<noteq> ''pong'' \<and> Event m \<noteq> ''pong''"
    unfolding evs by auto
qed

theorem pong_frames_consumed_silently_witness:
  "readLoop sample_codec (OnUserMessage NewMessageHandler 7) (ws (NewWSClient sample_config))
       [ReadMessage ''pong-frame'' 4, ReadMessage ''user-frame'' 5]
     = (None, (ws (NewWSClient sample_config))\<lparr>readChan := [user_frame]\<rparr>,
        [OnMessageCalled user_frame, UserMessageHandlerCalled 7 (hello\<lparr>Timestamp := 5\<rparr>),
         Go Go_Reconnect])
   \<and> Type user_frame \<noteq> ''pong'' \<and> Event user_frame \<noteq> ''pong''"
proof -
  let ?inb = "[ReadMessage ''pong-frame'' 4, ReadMessage ''user-frame'' 5]"
  have f: "filter (\<lambda>r. \<not> is_pong_frame sample_codec r) ?inb = [ReadMessage ''user-frame'' 5]"
    by (simp add: is_pong_frame_def sample_codec_def pong_message_def user_frame_def)
  note inst = pong_frames_consumed_silently [of sample_codec "OnUserMessage NewMessageHandler 7"
      "ws (NewWSClient sample_config)" ?inb]
  from inst have run: "readLoop sample_codec (OnUserMessage NewMessageHandler 7)
      (ws (NewWSClient sample_config)) ?inb
     = (None, (ws (NewWSClient sample_config))\<lparr>readChan := [user_frame]\<rparr>,
        [OnMessageCalled user_frame, UserMessageHandlerCalled 7 (hello\<lparr>Timestamp := 5\<rparr>),
         Go Go_Reconnect])"
    unfolding f sample_reader_run by simp
  from inst have "OnMessageCalled user_frame \<in> set (snd (snd (readLoop sample_codec
      (OnUserMessage NewMessageHandler 7) (ws (NewWSClient sample_config)) ?inb)))
      \<longrightarrow> Type user_frame \<noteq> ''pong'' \<and> Event user_frame \<noteq> ''pong''"
    by blast
  with run show ?thesis by simp
qed

text \<open>
  Claim C1 as stated covers ping frames too, and fails for them: a frame with type and event
  \<^verbatim>\<open>ping\<close> is pushed to \<^verbatim>\<open>readChan\<close> and handed to \<^verbatim>\<open>OnMessage\<close>; with the closure of
  \<^verbatim>\<open>NewWSClient\<close> it reaches the registered system handler.
\<close>

theorem ping_frame_reaches_OnMessage:
  "Type ping_message = ''ping'' \<and> Event ping_message = ''ping''
   \<and> decode_WSMessage sample_codec ''ping-frame'' = Some ping_message
   \<and> readLoop sample_codec (OnSystem NewMessageHandler 7) (ws (NewWSClient sample_config))
       [ReadMessage ''ping-frame'' 0]
     = (None, (ws (NewWSClient sample_config))\<lparr>readChan := [ping_message]\<rparr>,
        [OnMessageCalled ping_message, SystemHandlerCalled 7 ''ping'' [], Go Go_Reconnect])"
  by (simp add: readLoop_def handleDisconnect_def call_OnMessage_def NewWSClient_closure_def
      Handle_def handleSystem_def sample_codec_def ping_message_def
      push_readChan_def readChan_cap_def after_events_def NewWSClient_def
      NewWebSocketClient_def NewMessageHandler_def OnSystem_def Let_def sample_config_def)

text \<open>
  Claim C8: the reader, with \<^verbatim>\<open>OnError\<close> set, the closure of \<^verbatim>\<open>NewWSClient\<close> as
  \<^verbatim>\<open>OnMessage\<close> and one user-message handler registered, receives a frame that does not
  decode and then a user-message frame whose payload decodes. The error callback is called
  once, for the first frame, and the handler once, for the second; the reader goes on to
  the next read (here the end of the input) and returns without a fault. Whatever follows
  the frame that does not decode is read as if that frame had not come, after the one call
  of the error callback.
\<close>

theorem malformed_frame_then_user_message:
  assumes "decode_WSMessage cd bad = None"
    and "decode_WSMessage cd good = Some wsMsg"
    and "Type wsMsg \<noteq> ''pong''" and "Event wsMsg = ''user_message''"
    and "decode_UserMessage cd (Payload wsMsg) = Some msg"
    and "\<not> ctx_done c" and "OnError c" and "OnMessage c = Some HandlerOnMessage"
    and "UserMessageHandlers h = [fn]"
  shows "\<exists>c' evs. readLoop cd h c [ReadMessage bad t1, ReadMessage good t2] = (None, c', evs)
           \<and> evs = [OnErrorCalled (ParseMessageFailed JSONError), OnMessageCalled wsMsg,
                    UserMessageHandlerCalled fn (if Timestamp msg = 0 then msg\<lparr>Timestamp := t2\<rparr> else msg)]
                   @ snd (handleDisconnect c)
           \<and> length (filter is_OnErrorCalled evs) = 1
           \<and> length (filter is_UserMessageHandlerCalled evs) = 1
           \<and> (\<forall>rest. readLoop_for cd h c (ReadMessage bad t1 # rest)
                  = after_events [OnErrorCalled (ParseMessageFailed JSONError)]
                      (readLoop_for cd h c rest))"
proof -
  let ?c1 = "push_readChan c wsMsg"
  let ?msg = "if Timestamp msg = 0 then msg\<lparr>Timestamp := t2\<rparr> else msg"
  have c1: "\<not> ctx_done ?c1" "OnError ?c1" "OnMessage ?c1 = Some HandlerOnMessage"
    using assms(6-8) by (simp_all add: push_readChan_def)
  have handle: "Handle cd t2 h wsMsg = Inr [UserMessageHandlerCalled fn ?msg]"
    using assms(4,5,9) by (simp add: Handle_def handleUserMessage_def Let_def)
  have call: "call_OnMessage cd t2 h ?c1 wsMsg
      = (None, [OnMessageCalled wsMsg, UserMessageHandlerCalled fn ?msg])"
    using c1 handle by (simp add: call_OnMessage_def NewWSClient_closure_def)
  have pong: "\<not> (Type wsMsg = ''pong'' \<or> Event wsMsg = ''pong'')"
    using assms(3,4) by simp
  have second: "readLoop_for cd h c [ReadMessage good t2]
      = (None, ?c1, [OnMessageCalled wsMsg, UserMessageHandlerCalled fn ?msg])"
    using assms(2,6) pong call by (simp add: Let_def after_events_def)
  have loop: "readLoop_for cd h c [ReadMessage bad t1, ReadMessage good t2]
      = (None, ?c1, [OnErrorCalled (ParseMessageFailed JSONError), OnMessageCalled wsMsg,
                     UserMessageHandlerCalled fn ?msg])"
    using assms(1,6,7) second by (simp add: after_events_def)
  have hd: "snd (handleDisconnect ?c1) = snd (handleDisconnect c)"
    by (simp add: handleDisconnect_def push_readChan_def Let_def)
  have run: "readLoop cd h c [ReadMessage bad t1, ReadMessage good t2]
      = (None, fst (handleDisconnect ?c1),
         [OnErrorCalled (ParseMessageFailed JSONError), OnMessageCalled wsMsg,
          UserMessageHandlerCalled fn ?msg] @ snd (handleDisconnect c))"
    unfolding readLoop_def loop using hd by (cases "handleDisconnect ?c1") auto
  have tail: "filter is_OnErrorCalled (snd (handleDisconnect c)) = []"
    "filter is_UserMessageHandlerCalled (snd (handleDisconnect c)) = []"
    by (simp_all add: handleDisconnect_def Let_def)
  have skip: "\<forall>rest. readLoop_for cd h c (ReadMessage bad t1 # rest)
      = after_events [OnErrorCalled (ParseMessageFailed JSONError)] (readLoop_for cd h c rest)"
    using assms(1,6,7) by simp
  show ?thesis
    unfolding run using tail skip by simp
qed

theorem malformed_frame_then_user_message_witness:
  "decode_WSMessage sample_codec ''garbage'' = None
   \<and> decode_WSMessage sample_codec ''user-frame'' = Some user_frame
   \<and> decode_UserMessage sample_codec (Payload user_frame) = Some hello
   \<and> (\<exists>c'. readLoop sample_codec (OnUserMessage NewMessageHandler 7)
              ((ws (NewWSClient sample_config))\<lparr>OnError := True\<rparr>)
              [ReadMessage ''garbage'' 4, ReadMessage ''user-frame'' 5]
         = (None, c', [OnErrorCalled (ParseMessageFailed JSONError), OnMessageCalled user_frame,
                       UserMessageHandlerCalled 7 (hello\<lparr>Timestamp := 5\<rparr>), Go Go_Reconnect]))"
proof -
  let ?c = "(ws (NewWSClient sample_config))\<lparr>OnError := True\<rparr>"
  have a: "decode_WSMessage sample_codec ''garbage'' = None"
    and b: "decode_WSMessage sample_codec ''user-frame'' = Some user_frame"
    and c: "Type user_frame \<noteq> ''pong''" and d: "Event user_frame = ''user_message''"
    and e: "decode_UserMessage sample_codec (Payload user_frame) = Some hello"
    by (simp_all add: sample_codec_def user_frame_def)
  have f: "\<not> ctx_done ?c" and g: "OnError ?c" and h: "OnMessage ?c = Some HandlerOnMessage"
    by (simp_all add: NewWSClient_def NewWebSocketClient_def Let_def)
  have i: "UserMessageHandlers (OnUserMessage NewMessageHandler 7) = [7]"
    by (simp add: OnUserMessage_def NewMessageHandler_def)
  have tail: "snd (handleDisconnect ?c) = [Go Go_Reconnect]"
    by (simp add: handleDisconnect_def NewWSClient_def NewWebSocketClient_def Let_def)
  have ts: "Timestamp hello = 0"
    by (simp add: hello_def)
  from malformed_frame_then_user_message [OF a b c d e f g h i, of 4 5]
  show ?thesis
    unfolding tail using a b e ts by auto
qed

text \<open>
  Claim C10: when the reader's loop ends, in the client state \<open>c1\<close>, \<^verbatim>\<open>handleDisconnect\<close>
  clears the connected flag, calls \<^verbatim>\<open>OnDisconnect\<close> only if the flag was set in \<open>c1\<close> (and
  the callback is set), and then starts \<^verbatim>\<open>Reconnect\<close>; the loop itself never calls
  \<^verbatim>\<open>OnDisconnect\<close>. So a reader that ends on a client that is not connected starts a
  reconnect with no call of \<^verbatim>\<open>OnDisconnect\<close>.
\<close>

theorem reader_exit_OnDisconnect_only_if_connected:
  assumes "readLoop cd h c inbound = (f, c', evs)"
  shows "\<exists>c1 pre. readLoop_for cd h c inbound = (f, c1, pre)
           \<and> isConnected c1 = isConnected c
           \<and> c' = c1\<lparr>isConnected := False\<rparr>
           \<and> evs = pre @ (if isConnected c1 \<and> OnDisconnect c1
                           then [OnDisconnectCalled ConnectionLost] else []) @ [Go Go_Reconnect]
           \<and> filter is_OnDisconnectCalled pre = []
           \<and> filter is_OnDisconnectCalled evs
               = (if isConnected c1 \<and> OnDisconnect c1 then [OnDisconnectCalled ConnectionLost] else [])
           \<and> (\<not> isConnected c1 \<longrightarrow>
                 filter is_OnDisconnectCalled evs = [] \<and> last evs = Go Go_Reconnect)"
proof -
  obtain g c1 pre where loop: "readLoop_for cd h c inbound = (g, c1, pre)"
    by (cases "readLoop_for cd h c inbound") auto
  from readLoop_for_invariant [OF loop]
  have same: "isConnected c1 = isConnected c"
    and pre: "\<forall>ev\<in>set pre. reader_event ev"
    by blast+
  from assms loop have f: "f = g" and c': "c' = fst (handleDisconnect c1)"
    and evs: "evs = pre @ snd (handleDisconnect c1)"
    by (auto simp: readLoop_def split: prod.splits)
  have no_cb: "filter is_OnDisconnectCalled pre = []"
    using pre by (rule reader_events_no_OnDisconnect)
  have "readLoop_for cd h c inbound = (f, c1, pre)
           \<and> isConnected c1 = isConnected c
           \<and> c' = c1\<lparr>isConnected := False\<rparr>
           \<and> evs = pre @ (if isConnected c1 \<and> OnDisconnect c1
                           then [OnDisconnectCalled ConnectionLost] else []) @ [Go Go_Reconnect]
           \<and> filter is_OnDisconnectCalled pre = []
           \<and> filter is_OnDisconnectCalled evs
               = (if isConnected c1 \<and> OnDisconnect c1 then [OnDisconnectCalled ConnectionLost] else [])
           \<and> (\<not> isConnected c1 \<longrightarrow>
                 filter is_OnDisconnectCalled evs = [] \<and> last evs = Go Go_Reconnect)"
    unfolding evs c' using same no_cb loop f
    by (simp add: handleDisconnect_def Let_def)
  then show ?thesis by blast
qed

theorem reader_exit_OnDisconnect_only_if_connected_witness:
  "readLoop sample_codec NewMessageHandler
       ((NewWebSocketClient sample_config)\<lparr>OnDisconnect := True\<rparr>) [ReadError (CloseError 1006)]
     = (None, (NewWebSocketClient sample_config)\<lparr>OnDisconnect := True\<rparr>, [Go Go_Reconnect])
   \<and> \<not> isConnected ((NewWebSocketClient sample_config)\<lparr>OnDisconnect := True\<rparr>)
   \<and> filter is_OnDisconnectCalled [Go Go_Reconnect] = []
   \<and> readLoop sample_codec NewMessageHandler
       ((NewWebSocketClient sample_config)\<lparr>OnDisconnect := True, isConnected := True\<rparr>)
       [ReadError (CloseError 1006)]
     = (None, (NewWebSocketClient sample_config)\<lparr>OnDisconnect := True, isConnected := False\<rparr>,
        [OnDisconnectCalled ConnectionLost, Go Go_Reconnect])"
proof -
  let ?c = "(NewWebSocketClient sample_config)\<lparr>OnDisconnect := True\<rparr>"
  let ?d = "(NewWebSocketClient sample_config)\<lparr>OnDisconnect := True, isConnected := True\<rparr>"
  have loop: "readLoop_for sample_codec NewMessageHandler ?c [ReadError (CloseError 1006)] = (None, ?c, [])"
    "readLoop_for sample_codec NewMessageHandler ?d [ReadError (CloseError 1006)] = (None, ?d, [])"
    by (simp_all add: NewWebSocketClient_def Let_def IsUnexpectedCloseError_def
        CloseGoingAway_def CloseAbnormalClosure_def)
  have off: "\<not> isConnected ?c" "OnDisconnect ?c" "?c\<lparr>isConnected := False\<rparr> = ?c"
    and on: "isConnected ?d" "OnDisconnect ?d"
      "?d\<lparr>isConnected := False\<rparr>
         = (NewWebSocketClient sample_config)\<lparr>OnDisconnect := True, isConnected := False\<rparr>"
    by (simp_all add: NewWebSocketClient_def Let_def)
  let ?R = "readLoop sample_codec NewMessageHandler ?c [ReadError (CloseError 1006)]"
  let ?S = "readLoop sample_codec NewMessageHandler ?d [ReadError (CloseError 1006)]"
  have r: "?R = (fst ?R, fst (snd ?R), snd (snd ?R))" and s: "?S = (fst ?S, fst (snd ?S), snd (snd ?S))"
    by simp_all
  from reader_exit_OnDisconnect_only_if_connected [OF r]
  have 1: "?R = (None, ?c, [Go Go_Reconnect])"
    unfolding loop using off by (auto simp: prod_eq_iff)
  from reader_exit_OnDisconnect_only_if_connected [OF s]
  have 2: "?S = (None, (NewWebSocketClient sample_config)\<lparr>OnDisconnect := True, isConnected := False\<rparr>,
        [OnDisconnectCalled ConnectionLost, Go Go_Reconnect])"
    unfolding loop using on by (auto simp: prod_eq_iff)
  from 1 2 off(1) show ?thesis by simp
qed

subsection \<open>Reconnect\<close>

lemma Connect_refused:
  "\<not> isConnected c \<Longrightarrow>
   Connect (DialFails e) keys c
     = (Some e, c, Dial (handshake_request (config c))
                   # (if OnError c then [OnErrorCalled (ConnectFailed e)] else []))"
  by (simp add: Connect_def Let_def)

lemma Reconnect_body_refused:
  assumes "\<not> ctx_done c" and "\<not> isConnected c" and "dial (a + 1) = DialFails e"
    and "\<not> (MaxReconnectAttempts (config c) > 0 \<and> a + 1 > MaxReconnectAttempts (config c))"
  shows "Reconnect_body dial keys c a
     = (Continue (a + 1), c,
        [Sleep (ReconnectDelay (config c)), Dial (handshake_request (config c))]
        @ (if OnError c then [OnErrorCalled (ConnectFailed e)] else []))"
  using assms by (simp add: Reconnect_body_def Let_def Connect_refused)

lemma Reconnect_body_exhausted:
  assumes "\<not> ctx_done c" and "MaxReconnectAttempts (config c) > 0"
    and "a + 1 > MaxReconnectAttempts (config c)"
  shows "Reconnect_body dial keys c a
     = (Return, c, if OnError c then [OnErrorCalled (MaxReconnectReached (MaxReconnectAttempts (config c)))] else [])"
  using assms by (simp add: Reconnect_body_def Let_def)

text \<open>
  Claim C5: the limit is 3, every dial fails, the client is neither connected nor
  reconnecting nor cancelled, and \<^verbatim>\<open>OnError\<close> is set. Then \<^verbatim>\<open>Reconnect\<close> returns, having
  dialled three times, each failure reported to \<^verbatim>\<open>OnError\<close> by \<^verbatim>\<open>Connect\<close>, and having
  called \<^verbatim>\<open>OnError\<close> once, last, with the error that the maximum is reached. The loop runs
  its four passes on one client state, which is not connected, and the client is returned
  as it was.
\<close>

theorem Reconnect_gives_up_after_three_dials:
  assumes "MaxReconnectAttempts (config c) = 3"
    and "\<forall>n. dial n = DialFails (err n)"
    and "\<not> isReconnecting c" and "\<not> isConnected c" and "\<not> ctx_done c" and "OnError c"
  shows "\<exists>evs. Reconnect dial keys c = Some (c, evs)
           \<and> evs = [Sleep (ReconnectDelay (config c)), Dial (handshake_request (config c)),
                      OnErrorCalled (ConnectFailed (err 1)),
                    Sleep (ReconnectDelay (config c)), Dial (handshake_request (config c)),
                      OnErrorCalled (ConnectFailed (err 2)),
                    Sleep (ReconnectDelay (config c)), Dial (handshake_request (config c)),
                      OnErrorCalled (ConnectFailed (err 3)),
                    OnErrorCalled (MaxReconnectReached 3)]
           \<and> length (filter is_Dial evs) = 3
           \<and> count_list evs (OnErrorCalled (MaxReconnectReached 3)) = 1
           \<and> last evs = OnErrorCalled (MaxReconnectReached 3)
           \<and> (\<forall>a\<in>{0, 1, 2}.
                 Reconnect_body dial keys (c\<lparr>isReconnecting := True\<rparr>) a
                   = (Continue (a + 1), c\<lparr>isReconnecting := True\<rparr>,
                      [Sleep (ReconnectDelay (config c)), Dial (handshake_request (config c)),
                       OnErrorCalled (ConnectFailed (err (a + 1)))]))
           \<and> Reconnect_body dial keys (c\<lparr>isReconnecting := True\<rparr>) 3
                = (Return, c\<lparr>isReconnecting := True\<rparr>, [OnErrorCalled (MaxReconnectReached 3)])
           \<and> \<not> IsConnected (c\<lparr>isReconnecting := True\<rparr>) \<and> \<not> IsConnected c"
proof -
  let ?c1 = "c\<lparr>isReconnecting := True\<rparr>"
  let ?d = "Sleep (ReconnectDelay (config c))"
  let ?r = "Dial (handshake_request (config c))"
  have c1: "\<not> ctx_done ?c1" "\<not> isConnected ?c1" "OnError ?c1" "config ?c1 = config c"
    using assms(4-6) by simp_all
  have pass: "Reconnect_body dial keys ?c1 a
      = (Continue (a + 1), ?c1, [?d, ?r, OnErrorCalled (ConnectFailed (err (a + 1)))])"
    if "a \<in> {0, 1, 2}" for a
  proof -
    from assms(2) have "dial (a + 1) = DialFails (err (a + 1))" by simp
    from Reconnect_body_refused [where c = ?c1 and dial = dial and a = a and e = "err (a + 1)",
        OF c1(1,2) this] that assms(1) c1(3) show ?thesis
      by auto
  qed
  have stop: "Reconnect_body dial keys ?c1 3 = (Return, ?c1, [OnErrorCalled (MaxReconnectReached 3)])"
    using Reconnect_body_exhausted [OF c1(1), of 3 dial keys] assms(1) c1(3) by simp
  have l3: "Reconnect_loop dial keys ?c1 3 before = Some (?c1, before @ [OnErrorCalled (MaxReconnectReached 3)])"
    for before
    by (subst Reconnect_loop.simps) (simp add: stop)
  have l2: "Reconnect_loop dial keys ?c1 2 before
      = Some (?c1, before @ [?d, ?r, OnErrorCalled (ConnectFailed (err 3)),
                           OnErrorCalled (MaxReconnectReached 3)])" for before
    using pass [of 2] by (subst Reconnect_loop.simps) (simp add: l3)
  have l1: "Reconnect_loop dial keys ?c1 1 before
      = Some (?c1, before @ [?d, ?r, OnErrorCalled (ConnectFailed (err 2)),
                           ?d, ?r, OnErrorCalled (ConnectFailed (err 3)),
                           OnErrorCalled (MaxReconnectReached 3)])" for before
    using pass [of 1] by (subst Reconnect_loop.simps) (simp add: l2)
  have l0: "Reconnect_loop dial keys ?c1 0 []
      = Some (?c1, [?d, ?r, OnErrorCalled (ConnectFailed (err 1)),
                    ?d, ?r, OnErrorCalled (ConnectFailed (err 2)),
                    ?d, ?r, OnErrorCalled (ConnectFailed (err 3)),
                    OnErrorCalled (MaxReconnectReached 3)])"
    using pass [of 0] by (subst Reconnect_loop.simps) (simp add: l1)
  have reset: "?c1\<lparr>isReconnecting := False\<rparr> = c"
    using assms(3) by simp
  have run: "Reconnect dial keys c
      = Some (c, [?d, ?r, OnErrorCalled (ConnectFailed (err 1)),
                    ?d, ?r, OnErrorCalled (ConnectFailed (err 2)),
                    ?d, ?r, OnErrorCalled (ConnectFailed (err 3)),
                    OnErrorCalled (MaxReconnectReached 3)])"
    using assms(3) by (simp add: Reconnect_def l0 reset)
  from pass have passes: "\<forall>a\<in>{0, 1, 2}. Reconnect_body dial keys ?c1 a
      = (Continue (a + 1), ?c1, [?d, ?r, OnErrorCalled (ConnectFailed (err (a + 1)))])"
    by blast
  show ?thesis
    unfolding run using passes stop assms(4) by (simp add: IsConnected_def)
qed

theorem Reconnect_gives_up_after_three_dials_witness:
  "MaxReconnectAttempts (config ((NewWebSocketClient sample_config)\<lparr>OnError := True\<rparr>)) = 3
   \<and> refusing_server 1 = DialFails (TransportError ''connection refused'')
   \<and> \<not> isReconnecting ((NewWebSocketClient sample_config)\<lparr>OnError := True\<rparr>)
   \<and> \<not> isConnected ((NewWebSocketClient sample_config)\<lparr>OnError := True\<rparr>)
   \<and> \<not> ctx_done ((NewWebSocketClient sample_config)\<lparr>OnError := True\<rparr>)
   \<and> OnError ((NewWebSocketClient sample_config)\<lparr>OnError := True\<rparr>)
   \<and> (\<exists>evs. Reconnect refusing_server [] ((NewWebSocketClient sample_config)\<lparr>OnError := True\<rparr>)
              = Some ((NewWebSocketClient sample_config)\<lparr>OnError := True\<rparr>, evs)
            \<and> length (filter is_Dial evs) = 3
            \<and> last evs = OnErrorCalled (MaxReconnectReached 3))"
proof -
  let ?c = "(NewWebSocketClient sample_config)\<lparr>OnError := True\<rparr>"
  have a: "MaxReconnectAttempts (config ?c) = 3"
    by (simp add: NewWebSocketClient_def sample_config_def Let_def)
  have b: "\<forall>n. refusing_server n = DialFails ((\<lambda>n. TransportError ''connection refused'') n)"
    by (simp add: refusing_server_def)
  have c: "\<not> isReconnecting ?c" and d: "\<not> isConnected ?c" and e: "\<not> ctx_done ?c" and f: "OnError ?c"
    by (simp_all add: NewWebSocketClient_def Let_def)
  from Reconnect_gives_up_after_three_dials [OF a b c d e f, of "[]"]
  have "\<exists>evs. Reconnect refusing_server [] ?c = Some (?c, evs)
            \<and> length (filter is_Dial evs) = 3
            \<and> last evs = OnErrorCalled (MaxReconnectReached 3)"
    by blast
  with a c d e f show ?thesis
    by (simp add: refusing_server_def)
qed

text \<open>
  The guard does its work when the second caller tests the flag after the first has set it:
  the second caller returns at once, and the client dials three times.
\<close>

lemma guarded_Reconnect_three_dials:
  "run_schedule refusing_server [] [0, 0, 1, 0, 0, 0, 0]
        ((NewWebSocketClient sample_config)\<lparr>OnError := True\<rparr>, [At_guard, At_guard], [])
     = ((NewWebSocketClient sample_config)\<lparr>OnError := True\<rparr>, [Returned, Returned],
        [Sleep (5 * Second), Dial (handshake_request sample_config),
           OnErrorCalled (ConnectFailed (TransportError ''connection refused'')),
         Sleep (5 * Second), Dial (handshake_request sample_config),
           OnErrorCalled (ConnectFailed (TransportError ''connection refused'')),
         Sleep (5 * Second), Dial (handshake_request sample_config),
           OnErrorCalled (ConnectFailed (TransportError ''connection refused'')),
         OnErrorCalled (MaxReconnectReached 3)])"
  by (simp add: NewWebSocketClient_def sample_config_def Let_def refusing_server_def
      Reconnect_body_def Connect_def handshake_request_def)

text \<open>
  Claim C9: callers of \<^verbatim>\<open>Reconnect\<close> that run at the same time share one sequence of
  attempts. They do not: two goroutines that both test the flag before either sets it both
  enter the loop, and with a limit of 3 and a server that refuses every handshake the client
  dials six times and reports the exhausted limit twice.
\<close>

theorem concurrent_Reconnect_six_dials:
  "MaxReconnectAttempts (config ((NewWebSocketClient sample_config)\<lparr>OnError := True\<rparr>)) = 3
   \<and> fst (snd (run_schedule refusing_server [] [0, 1, 0, 1, 0, 0, 0, 0, 1, 1, 1, 1]
        ((NewWebSocketClient sample_config)\<lparr>OnError := True\<rparr>, [At_guard, At_guard], [])))
       = [Returned, Returned]
   \<and> length (filter is_Dial (snd (snd (run_schedule refusing_server []
        [0, 1, 0, 1, 0, 0, 0, 0, 1, 1, 1, 1]
        ((NewWebSocketClient sample_config)\<lparr>OnError := True\<rparr>, [At_guard, At_guard], []))))) = 6
   \<and> count_list (snd (snd (run_schedule refusing_server []
        [0, 1, 0, 1, 0, 0, 0, 0, 1, 1, 1, 1]
        ((NewWebSocketClient sample_config)\<lparr>OnError := True\<rparr>, [At_guard, At_guard], []))))
        (OnErrorCalled (MaxReconnectReached 3)) = 2"
  by (simp add: NewWebSocketClient_def sample_config_def Let_def refusing_server_def
      Reconnect_body_def Connect_def handshake_request_def)

end
